theory Spec2Isabelle
  imports Complex_Main
begin

section \<open>The transport of the ETISS project-API server\<close>

text \<open>
  The development embeds the transport methods of class \<open>Handler\<close> in
  \<open>template_project/microtvm_api_server.py\<close>: \<open>close_transport\<close>,
  \<open>_await_ready\<close>, \<open>read_transport\<close> and \<open>write_transport\<close>.

  The methods talk to the operating system (\<open>time.monotonic\<close>, \<open>select.select\<close>,
  \<open>os.read\<close>, \<open>os.write\<close>, \<open>os.getpgid\<close>, \<open>os.killpg\<close>) and to the
  \<open>subprocess.Popen\<close> object (\<open>terminate\<close>, \<open>kill\<close>, \<open>wait\<close>). None of that is code
  of the repository, so it is a parameter of the model: a record of functions that give the
  outcome of every call from the history of the calls made so far. Every call made is
  appended, with its arguments and its outcome, to that history, so that "no I/O attempted"
  is the statement that the history did not grow.
\<close>

subsection \<open>Data\<close>

type_synonym fd = nat
type_synonym bytes = "nat list"

text \<open>The exceptions the operating system calls can raise (subclasses of \<open>OSError\<close>).\<close>

datatype os_error = BrokenPipeError | ProcessLookupError | BlockingIOError

text \<open>The exceptions that leave a method of the handler.\<close>

datatype error = IoTimeoutError | TransportClosedError | AttributeError | OSError os_error

text \<open>The outcome of an external call: it returns, it raises, or it never returns.\<close>

datatype 'a sysres = Done 'a | Fails os_error | Blocks

text \<open>The outcome of a method of the handler.\<close>

datatype 'a result = Returns 'a | Raises error | Hangs

text \<open>The fields of the \<open>Popen\<close> object the transport uses.\<close>

record popen =
  pid :: nat
  stdin_fileno :: fd
  stdout_fileno :: fd

text \<open>
  The attributes of the handler: \<open>self._proc\<close> and, in debug mode only,
  \<open>self.outputs\<close>.
\<close>

record handler =
  proc :: "popen option"
  outputs :: bytes

datatype event =
    EvMonotonic real
  | EvSelect "fd list" "fd list" "fd list" "real option" "(fd list \<times> fd list \<times> fd list) sysres"
  | EvRead fd nat "bytes sysres"
  | EvWrite fd bytes "nat sysres"
  | EvGetpgid nat "nat sysres"
  | EvTerminate nat "unit sysres"
  | EvKill nat "unit sysres"
  | EvWait nat "unit sysres"
  | EvKillpg nat "unit sysres"
  | EvDump bytes "unit sysres"

type_synonym trace = "event list"

record os =
  os_monotonic :: "trace \<Rightarrow> real"
  os_select :: "trace \<Rightarrow> fd list \<Rightarrow> fd list \<Rightarrow> fd list \<Rightarrow> real option
                  \<Rightarrow> (fd list \<times> fd list \<times> fd list) sysres"
  os_read :: "trace \<Rightarrow> fd \<Rightarrow> nat \<Rightarrow> bytes sysres"
  os_write :: "trace \<Rightarrow> fd \<Rightarrow> bytes \<Rightarrow> nat sysres"
  os_getpgid :: "trace \<Rightarrow> nat \<Rightarrow> nat sysres"
  os_killpg :: "trace \<Rightarrow> nat \<Rightarrow> unit sysres"
  popen_terminate :: "trace \<Rightarrow> nat \<Rightarrow> unit sysres"
  popen_kill :: "trace \<Rightarrow> nat \<Rightarrow> unit sysres"
  popen_wait :: "trace \<Rightarrow> nat \<Rightarrow> unit sysres"
  os_dump :: "trace \<Rightarrow> bytes \<Rightarrow> unit sysres"

text \<open>
  \<open>write_transport\<close> calls \<open>self.disconnect_transport()\<close>. Class \<open>Handler\<close> defines no
  method of that name, so the attribute lookup goes to the base class
  \<open>server.ProjectAPIHandler\<close>, which is not code of this repository: what the base class
  provides under that name is a parameter, \<open>None\<close> when it provides nothing.
\<close>

type_synonym method0 = "handler \<Rightarrow> trace \<Rightarrow> unit result \<times> handler \<times> trace"

type_synonym base_class = "method0 option"

subsection \<open>Module constants\<close>

definition DBG :: bool where
  "DBG = False"

subsection \<open>External calls, recorded in the history\<close>

definition raised :: "'a sysres \<Rightarrow> 'b result" where
  "raised r = (case r of Fails e \<Rightarrow> Raises (OSError e) | _ \<Rightarrow> Hangs)"

definition time_monotonic :: "os \<Rightarrow> trace \<Rightarrow> real \<times> trace" where
  "time_monotonic sys tr = (os_monotonic sys tr, tr @ [EvMonotonic (os_monotonic sys tr)])"

definition select_select ::
  "os \<Rightarrow> fd list \<Rightarrow> fd list \<Rightarrow> fd list \<Rightarrow> real option \<Rightarrow> trace
     \<Rightarrow> (fd list \<times> fd list \<times> fd list) sysres \<times> trace" where
  "select_select sys rl wl xl t tr =
     (os_select sys tr rl wl xl t, tr @ [EvSelect rl wl xl t (os_select sys tr rl wl xl t)])"

definition sys_read :: "os \<Rightarrow> fd \<Rightarrow> nat \<Rightarrow> trace \<Rightarrow> bytes sysres \<times> trace" where
  "sys_read sys f n tr = (os_read sys tr f n, tr @ [EvRead f n (os_read sys tr f n)])"

definition sys_write :: "os \<Rightarrow> fd \<Rightarrow> bytes \<Rightarrow> trace \<Rightarrow> nat sysres \<times> trace" where
  "sys_write sys f d tr = (os_write sys tr f d, tr @ [EvWrite f d (os_write sys tr f d)])"

definition sys_getpgid :: "os \<Rightarrow> nat \<Rightarrow> trace \<Rightarrow> nat sysres \<times> trace" where
  "sys_getpgid sys p tr = (os_getpgid sys tr p, tr @ [EvGetpgid p (os_getpgid sys tr p)])"

definition sys_killpg :: "os \<Rightarrow> nat \<Rightarrow> trace \<Rightarrow> unit sysres \<times> trace" where
  "sys_killpg sys g tr = (os_killpg sys tr g, tr @ [EvKillpg g (os_killpg sys tr g)])"

definition proc_terminate :: "os \<Rightarrow> nat \<Rightarrow> trace \<Rightarrow> unit sysres \<times> trace" where
  "proc_terminate sys p tr =
     (popen_terminate sys tr p, tr @ [EvTerminate p (popen_terminate sys tr p)])"

definition proc_kill :: "os \<Rightarrow> nat \<Rightarrow> trace \<Rightarrow> unit sysres \<times> trace" where
  "proc_kill sys p tr = (popen_kill sys tr p, tr @ [EvKill p (popen_kill sys tr p)])"

definition proc_wait :: "os \<Rightarrow> nat \<Rightarrow> trace \<Rightarrow> unit sysres \<times> trace" where
  "proc_wait sys p tr = (popen_wait sys tr p, tr @ [EvWait p (popen_wait sys tr p)])"

definition dump_outputs :: "os \<Rightarrow> bytes \<Rightarrow> trace \<Rightarrow> unit sysres \<times> trace" where
  "dump_outputs sys d tr = (os_dump sys tr d, tr @ [EvDump d (os_dump sys tr d)])"

subsection \<open>\<open>close_transport\<close>\<close>

text \<open>
  The body of \<open>if self._proc is not None\<close>, from \<open>proc.terminate()\<close> on: the handle
  has been cleared already, so the handler is not touched any more.
\<close>

definition kill_all :: "os \<Rightarrow> nat \<Rightarrow> nat \<Rightarrow> trace \<Rightarrow> unit result \<times> trace" where
  "kill_all sys p pgrp tr =
     (case proc_terminate sys p tr of
        (Done _, tr1) \<Rightarrow>
          (case proc_kill sys p tr1 of
             (Done _, tr2) \<Rightarrow>
               (case proc_wait sys p tr2 of
                  (Done _, tr3) \<Rightarrow>
                    (case sys_killpg sys pgrp tr3 of
                       (Done _, tr4) \<Rightarrow> (Returns (), tr4)
                     | (r, tr4) \<Rightarrow> (raised r, tr4))
                | (r, tr3) \<Rightarrow> (raised r, tr3))
           | (r, tr2) \<Rightarrow> (raised r, tr2))
      | (r, tr1) \<Rightarrow> (raised r, tr1))"

definition close_proc :: "os \<Rightarrow> handler \<Rightarrow> trace \<Rightarrow> unit result \<times> handler \<times> trace" where
  "close_proc sys h tr =
     (case proc h of
        None \<Rightarrow> (Returns (), h, tr)
      | Some p \<Rightarrow>
          (case sys_getpgid sys (pid p) tr of
             (Done pgrp, tr1) \<Rightarrow>
               (case kill_all sys (pid p) pgrp tr1 of
                  (r, tr2) \<Rightarrow> (r, h\<lparr>proc := None\<rparr>, tr2))
           | (r, tr1) \<Rightarrow> (raised r, h, tr1)))"

definition close_transport :: "os \<Rightarrow> handler \<Rightarrow> trace \<Rightarrow> unit result \<times> handler \<times> trace" where
  "close_transport sys h tr =
     (if DBG then
        (case dump_outputs sys (outputs h) tr of
           (Done _, tr0) \<Rightarrow> close_proc sys h tr0
         | (r, tr0) \<Rightarrow> (raised r, h, tr0))
      else close_proc sys h tr)"

subsection \<open>\<open>_await_ready\<close>\<close>

text \<open>
  \<open>timeout_sec\<close> and \<open>end_time\<close> are \<open>None\<close> or a number of seconds; the result of
  \<open>max(0, end_time - time.monotonic())\<close> is the timeout given to \<open>select\<close>.
\<close>

definition await_ready ::
  "os \<Rightarrow> fd list \<Rightarrow> fd list \<Rightarrow> real option \<Rightarrow> real option \<Rightarrow> trace \<Rightarrow> bool result \<times> trace" where
  "await_ready sys rlist wlist timeout_sec end_time tr =
     (case (if timeout_sec = None \<and> end_time \<noteq> None
            then (case time_monotonic sys tr of
                    (now, tr0) \<Rightarrow> (Some (max 0 (the end_time - now)), tr0))
            else (timeout_sec, tr)) of
        (timeout, tr0) \<Rightarrow>
          (case select_select sys rlist wlist (rlist @ wlist) timeout tr0 of
             (Done (rl, wl, xl), tr1) \<Rightarrow>
               (if rl = [] \<and> wl = [] \<and> xl = [] then (Raises IoTimeoutError, tr1)
                else (Returns True, tr1))
           | (r, tr1) \<Rightarrow> (raised r, tr1)))"

subsection \<open>\<open>read_transport\<close>\<close>

text \<open>
  \<open>end_time = None if timeout_sec is None else time.monotonic() + timeout_sec\<close>,
  as both transfer methods compute it.
\<close>

definition deadline :: "os \<Rightarrow> real option \<Rightarrow> trace \<Rightarrow> real option \<times> trace" where
  "deadline sys timeout_sec tr =
     (case timeout_sec of
        None \<Rightarrow> (None, tr)
      | Some t \<Rightarrow> (case time_monotonic sys tr of (now, tr0) \<Rightarrow> (Some (now + t), tr0)))"

text \<open>
  The \<open>try\<close> block of \<open>read_transport\<close> with its handler: \<open>BrokenPipeError\<close> from the
  wait or from the read gives \<open>to_return = 0\<close>, which the test \<open>not to_return\<close> does not
  tell from the empty byte string, so both are \<open>[]\<close> here.
\<close>

definition read_attempt ::
  "os \<Rightarrow> fd \<Rightarrow> nat \<Rightarrow> real option \<Rightarrow> trace \<Rightarrow> bytes result \<times> trace" where
  "read_attempt sys f n end_time tr =
     (case await_ready sys [f] [] None end_time tr of
        (Returns _, tr1) \<Rightarrow>
          (case sys_read sys f n tr1 of
             (Done bs, tr2) \<Rightarrow> (Returns bs, tr2)
           | (Fails BrokenPipeError, tr2) \<Rightarrow> (Returns [], tr2)
           | (r, tr2) \<Rightarrow> (raised r, tr2))
      | (Raises (OSError BrokenPipeError), tr1) \<Rightarrow> (Returns [], tr1)
      | (Raises e, tr1) \<Rightarrow> (Raises e, tr1)
      | (Hangs, tr1) \<Rightarrow> (Hangs, tr1))"

definition read_transport ::
  "os \<Rightarrow> nat \<Rightarrow> real option \<Rightarrow> handler \<Rightarrow> trace \<Rightarrow> bytes result \<times> handler \<times> trace" where
  "read_transport sys n timeout_sec h tr =
     (case proc h of
        None \<Rightarrow> (Raises TransportClosedError, h, tr)
      | Some p \<Rightarrow>
          (case deadline sys timeout_sec tr of
             (end_time, tr0) \<Rightarrow>
               (case read_attempt sys (stdout_fileno p) n end_time tr0 of
                  (Returns to_return, tr1) \<Rightarrow>
                    (if to_return = [] then
                       (case close_transport sys h tr1 of
                          (Returns _, h', tr2) \<Rightarrow> (Raises TransportClosedError, h', tr2)
                        | (Raises e, h', tr2) \<Rightarrow> (Raises e, h', tr2)
                        | (Hangs, h', tr2) \<Rightarrow> (Hangs, h', tr2))
                     else if DBG then
                       (Returns to_return, h\<lparr>outputs := outputs h @ to_return\<rparr>, tr1)
                     else (Returns to_return, h, tr1))
                | (Raises e, tr1) \<Rightarrow> (Raises e, h, tr1)
                | (Hangs, tr1) \<Rightarrow> (Hangs, h, tr1))))"

subsection \<open>\<open>write_transport\<close>\<close>

text \<open>\<open>self.disconnect_transport()\<close>: the attribute is looked up, then called.\<close>

definition disconnect_transport :: "base_class \<Rightarrow> method0" where
  "disconnect_transport base h tr =
     (case base of
        None \<Rightarrow> (Raises AttributeError, h, tr)
      | Some m \<Rightarrow> m h tr)"

text \<open>
  One \<open>os.write\<close> with its handler: \<open>BrokenPipeError\<close> gives \<open>num_written = 0\<close>.
\<close>

definition write_attempt :: "os \<Rightarrow> fd \<Rightarrow> bytes \<Rightarrow> trace \<Rightarrow> nat result \<times> trace" where
  "write_attempt sys f d tr =
     (case sys_write sys f d tr of
        (Done k, tr1) \<Rightarrow> (Returns k, tr1)
      | (Fails BrokenPipeError, tr1) \<Rightarrow> (Returns 0, tr1)
      | (r, tr1) \<Rightarrow> (raised r, tr1))"

text \<open>
  The branch \<open>if not num_written\<close>: \<open>self.disconnect_transport()\<close>, then
  \<open>raise server.TransportClosedError()\<close>.
\<close>

definition peer_closed :: "base_class \<Rightarrow> method0" where
  "peer_closed base h tr =
     (case disconnect_transport base h tr of
        (Returns _, h', tr') \<Rightarrow> (Raises TransportClosedError, h', tr')
      | other \<Rightarrow> other)"

text \<open>
  The loop \<open>while data\<close>. Every turn that continues has written at least one byte, so the
  unsent rest gets shorter.
\<close>

function write_loop ::
  "os \<Rightarrow> base_class \<Rightarrow> real option \<Rightarrow> fd \<Rightarrow> bytes \<Rightarrow> handler \<Rightarrow> trace
     \<Rightarrow> unit result \<times> handler \<times> trace" where
  "write_loop sys base end_time f d h tr =
     (if d = [] then (Returns (), h, tr)
      else
        (case await_ready sys [] [f] None end_time tr of
           (Returns _, tr1) \<Rightarrow>
             (case write_attempt sys f d tr1 of
                (Returns num_written, tr2) \<Rightarrow>
                  (if num_written = 0 then peer_closed base h tr2
                   else write_loop sys base end_time f (drop num_written d) h tr2)
              | (Raises e, tr2) \<Rightarrow> (Raises e, h, tr2)
              | (Hangs, tr2) \<Rightarrow> (Hangs, h, tr2))
         | (Raises e, tr1) \<Rightarrow> (Raises e, h, tr1)
         | (Hangs, tr1) \<Rightarrow> (Hangs, h, tr1)))"
  by pat_completeness auto
termination
  by (relation "measure (\<lambda>(sys, base, end_time, f, d, h, tr). length d)") auto

declare write_loop.simps [simp del]

definition write_transport ::
  "os \<Rightarrow> base_class \<Rightarrow> bytes \<Rightarrow> real option \<Rightarrow> handler \<Rightarrow> trace
     \<Rightarrow> unit result \<times> handler \<times> trace" where
  "write_transport sys base d timeout_sec h tr =
     (case proc h of
        None \<Rightarrow> (Raises TransportClosedError, h, tr)
      | Some p \<Rightarrow>
          (case deadline sys timeout_sec tr of
             (end_time, tr0) \<Rightarrow> write_loop sys base end_time (stdin_fileno p) d h tr0))"

subsection \<open>What the environment promises, and what a history shows\<close>


text \<open>\<open>os.read(fd, n)\<close> returns at most \<open>n\<close> bytes.\<close>

definition os_read_upto :: "os \<Rightarrow> bool" where
  "os_read_upto sys = (\<forall>tr f n bs. os_read sys tr f n = Done bs \<longrightarrow> length bs \<le> n)"

fun is_read :: "event \<Rightarrow> bool" where
  "is_read (EvRead f n r) = True"
| "is_read _ = False"





subsection \<open>Concrete environments and sessions\<close>

text \<open>
  An environment in which every call succeeds: the clock advances by one second with every
  call made, every handle asked about is ready, a read yields up to three bytes, a write
  accepts at most two bytes at a time.
\<close>

definition ready_os :: os where
  "ready_os = \<lparr>
     os_monotonic = (\<lambda>tr. real (length tr)),
     os_select = (\<lambda>tr rl wl xl t.
        if rl @ wl \<noteq> [] then Done (rl, wl, [])
        else (case t of None \<Rightarrow> Blocks | Some _ \<Rightarrow> Done ([], [], []))),
     os_read = (\<lambda>tr f n. Done (take n [1, 2, 3])),
     os_write = (\<lambda>tr f d. Done (min 2 (length d))),
     os_getpgid = (\<lambda>tr p. Done p),
     os_killpg = (\<lambda>tr g. Done ()),
     popen_terminate = (\<lambda>tr p. Done ()),
     popen_kill = (\<lambda>tr p. Done ()),
     popen_wait = (\<lambda>tr p. Done ()),
     os_dump = (\<lambda>tr d. Done ()) \<rparr>"

text \<open>
  The same, but nothing is ever ready: \<open>select\<close> comes back empty when its timeout is
  over, and does not come back without a timeout.
\<close>

definition idle_os :: os where
  "idle_os = ready_os\<lparr> os_select :=
     (\<lambda>tr rl wl xl t. case t of None \<Rightarrow> Blocks | Some _ \<Rightarrow> Done ([], [], [])) \<rparr>"

text \<open>The peer has closed its end: a read yields no byte, a write fails.\<close>

definition eof_os :: os where
  "eof_os = ready_os\<lparr> os_read := (\<lambda>tr f n. Done []),
                       os_write := (\<lambda>tr f d. Fails BrokenPipeError) \<rparr>"

text \<open>The pipe takes nothing: a write reports zero bytes written.\<close>

definition stalled_os :: os where
  "stalled_os = ready_os\<lparr> os_write := (\<lambda>tr f d. Done 0) \<rparr>"

text \<open>
  The peer has closed its end and, once the process has been waited for, its process group
  is gone: \<open>os.killpg\<close> fails.
\<close>

definition group_gone_os :: os where
  "group_gone_os = eof_os\<lparr> os_killpg := (\<lambda>tr g. Fails ProcessLookupError) \<rparr>"

text \<open>The process is gone altogether: \<open>os.getpgid\<close> fails.\<close>

definition proc_gone_os :: os where
  "proc_gone_os = eof_os\<lparr> os_getpgid := (\<lambda>tr p. Fails ProcessLookupError) \<rparr>"

definition the_proc :: popen where
  "the_proc = \<lparr> pid = 7, stdin_fileno = 3, stdout_fileno = 4 \<rparr>"

definition live_handler :: handler where
  "live_handler = \<lparr> proc = Some the_proc, outputs = [] \<rparr>"

definition closed_handler :: handler where
  "closed_handler = \<lparr> proc = None, outputs = [] \<rparr>"

section \<open>Properties\<close>

subsection \<open>Facts about the single methods\<close>

lemma close_transport_closed:
  "proc h = None \<Longrightarrow> close_transport sys h tr = (Returns (), h, tr)"
  by (simp add: close_transport_def close_proc_def DBG_def)

lemma close_transport_returned:
  assumes "close_transport sys h tr = (Returns (), h', tr')"
  shows "proc h' = None"
proof (cases "proc h")
  case None
  then show ?thesis using assms close_transport_closed [of h sys tr] by simp
next
  case (Some p)
  then show ?thesis using assms
    by (cases "os_getpgid sys tr (pid p)")
       (auto simp add: close_transport_def close_proc_def DBG_def sys_getpgid_def raised_def
          split: prod.splits)
qed

lemma close_transport_clears:
  assumes "proc h = Some p" and "os_getpgid sys tr (pid p) = Done g"
  shows "fst (snd (close_transport sys h tr)) = h\<lparr>proc := None\<rparr>"
  using assms
  by (simp add: close_transport_def close_proc_def DBG_def sys_getpgid_def split: prod.splits)




lemma deadline_no_read: "filter is_read (snd (deadline sys timeout_sec tr)) = filter is_read tr"
  by (simp add: deadline_def time_monotonic_def split: option.splits)

lemma await_ready_no_read:
  "filter is_read (snd (await_ready sys rl wl timeout_sec end_time tr)) = filter is_read tr"
  by (simp add: await_ready_def time_monotonic_def select_select_def
           split: prod.splits sysres.splits)





subsection \<open>Runs in the concrete environments\<close>

lemma ready_os_read_upto: "os_read_upto ready_os"
  by (simp add: os_read_upto_def ready_os_def)

lemma close_live_ready:
  "close_transport ready_os live_handler [] =
     (Returns (), closed_handler,
      [EvGetpgid 7 (Done 7), EvTerminate 7 (Done ()), EvKill 7 (Done ()), EvWait 7 (Done ()),
       EvKillpg 7 (Done ())])"
  by (simp add: close_transport_def close_proc_def kill_all_def DBG_def sys_getpgid_def
        proc_terminate_def proc_kill_def proc_wait_def sys_killpg_def raised_def
        ready_os_def live_handler_def closed_handler_def the_proc_def)

lemma close_live_eof:
  "close_transport eof_os live_handler tr =
     (Returns (), closed_handler,
      tr @ [EvGetpgid 7 (Done 7), EvTerminate 7 (Done ()), EvKill 7 (Done ()), EvWait 7 (Done ()),
       EvKillpg 7 (Done ())])"
  by (simp add: close_transport_def close_proc_def kill_all_def DBG_def sys_getpgid_def
        proc_terminate_def proc_kill_def proc_wait_def sys_killpg_def raised_def
        eof_os_def ready_os_def live_handler_def closed_handler_def the_proc_def)


subsection \<open>The claims\<close>

text \<open>
  C1. When \<open>os.write\<close> raises \<open>BrokenPipeError\<close> or reports zero bytes written,
  \<open>write_transport\<close> calls \<open>self.disconnect_transport()\<close> and then raises
  \<open>TransportClosedError\<close>. Class \<open>Handler\<close> defines no \<open>disconnect_transport\<close>; with a
  base class that provides none either, the call raises \<open>AttributeError\<close>: the session is
  not torn down (the process handle stays set and no signal is sent) and the error is not
  \<open>TransportClosedError\<close>. The sibling path in \<open>read_transport\<close> calls
  \<open>self.close_transport()\<close> at the same place.
\<close>

theorem write_transport_peer_closed_attribute_error:
  "write_transport eof_os None [1, 2, 3] (Some 5) live_handler [] =
     (Raises AttributeError, live_handler,
      [EvMonotonic 0, EvMonotonic 1, EvSelect [] [3] [3] (Some 4) (Done ([], [3], [])),
       EvWrite 3 [1, 2, 3] (Fails BrokenPipeError)])
   \<and> write_transport stalled_os None [1, 2, 3] (Some 5) live_handler [] =
     (Raises AttributeError, live_handler,
      [EvMonotonic 0, EvMonotonic 1, EvSelect [] [3] [3] (Some 4) (Done ([], [3], [])),
       EvWrite 3 [1, 2, 3] (Done 0)])
   \<and> proc live_handler \<noteq> None"
  by (simp add: write_transport_def deadline_def write_loop.simps await_ready_def
        write_attempt_def peer_closed_def disconnect_transport_def
        time_monotonic_def select_select_def sys_write_def raised_def
        stalled_os_def eof_os_def ready_os_def live_handler_def the_proc_def)




text \<open>
  C3. On a session whose process handle is \<open>None\<close>, every read and every write fails
  with \<open>TransportClosedError\<close> at once: the handler is unchanged and no external call was
  made, the history being the one the call started with.
\<close>

theorem closed_session_fails_without_io:
  assumes "proc h = None"
  shows "read_transport sys n timeout_sec h tr = (Raises TransportClosedError, h, tr)
       \<and> write_transport sys base d timeout_sec h tr = (Raises TransportClosedError, h, tr)"
  using assms by (simp add: read_transport_def write_transport_def)

theorem closed_session_fails_without_io_witness:
  "proc closed_handler = None
   \<and> read_transport ready_os 4 (Some 1) closed_handler [] =
       (Raises TransportClosedError, closed_handler, [])
   \<and> write_transport ready_os None [1, 2, 3] (Some 1) closed_handler [] =
       (Raises TransportClosedError, closed_handler, [])"
  using closed_session_fails_without_io [of closed_handler ready_os 4 "Some 1" "[]" None "[1, 2, 3]"]
  by (simp add: closed_handler_def)

text \<open>
  C4, as stated: a read that returns zero bytes ends in \<open>TransportClosedError\<close>. Where
  \<open>os.killpg\<close> fails because the group is gone, the error of \<open>close_transport\<close> leaves
  \<open>read_transport\<close> instead.
\<close>

theorem read_transport_peer_closed_counterexample:
  "os_read group_gone_os
      [EvMonotonic 0, EvMonotonic 1, EvSelect [4] [] [4] (Some 4) (Done ([4], [], []))] 4 10 = Done []
   \<and> read_transport group_gone_os 10 (Some 5) live_handler [] =
     (Raises (OSError ProcessLookupError), closed_handler,
      [EvMonotonic 0, EvMonotonic 1, EvSelect [4] [] [4] (Some 4) (Done ([4], [], [])),
       EvRead 4 10 (Done []),
       EvGetpgid 7 (Done 7), EvTerminate 7 (Done ()), EvKill 7 (Done ()), EvWait 7 (Done ()),
       EvKillpg 7 (Fails ProcessLookupError)])"
  by (simp add: read_transport_def deadline_def read_attempt_def await_ready_def
        time_monotonic_def select_select_def sys_read_def
        close_transport_def close_proc_def kill_all_def DBG_def sys_getpgid_def
        proc_terminate_def proc_kill_def proc_wait_def sys_killpg_def raised_def
        group_gone_os_def eof_os_def ready_os_def live_handler_def closed_handler_def the_proc_def)

text \<open>
  C4, amended. On a live session, when the wait succeeds and \<open>os.read\<close> returns zero
  bytes or raises \<open>BrokenPipeError\<close>, \<open>read_transport\<close> runs \<open>close_transport\<close> on the
  spot and ends with the handler and the history \<open>close_transport\<close> left. When
  \<open>close_transport\<close> returns, the process handle is \<open>None\<close> and the call fails with
  \<open>TransportClosedError\<close>; when it raises or hangs, so does the call.
\<close>

theorem read_transport_peer_closed:
  assumes live: "proc h = Some p"
    and dl: "deadline sys timeout_sec tr = (end_time, tr0)"
    and ready: "await_ready sys [stdout_fileno p] [] None end_time tr0 = (Returns True, tr1)"
    and rd: "os_read sys tr1 (stdout_fileno p) n = Done []
           \<or> os_read sys tr1 (stdout_fileno p) n = Fails BrokenPipeError"
    and cl: "close_transport sys h
               (tr1 @ [EvRead (stdout_fileno p) n (os_read sys tr1 (stdout_fileno p) n)]) =
             (r, h', tr2)"
  shows "read_transport sys n timeout_sec h tr =
           ((case r of Returns u \<Rightarrow> Raises TransportClosedError
                     | Raises e \<Rightarrow> Raises e
                     | Hangs \<Rightarrow> Hangs), h', tr2)
       \<and> (r = Returns () \<longrightarrow> proc h' = None)"
proof -
  have "read_attempt sys (stdout_fileno p) n end_time tr0 =
          (Returns [], tr1 @ [EvRead (stdout_fileno p) n (os_read sys tr1 (stdout_fileno p) n)])"
    using ready rd by (auto simp add: read_attempt_def sys_read_def)
  then have "read_transport sys n timeout_sec h tr =
           ((case r of Returns u \<Rightarrow> Raises TransportClosedError
                     | Raises e \<Rightarrow> Raises e
                     | Hangs \<Rightarrow> Hangs), h', tr2)"
    using live dl cl by (simp add: read_transport_def split: result.splits)
  moreover have "r = Returns () \<longrightarrow> proc h' = None"
    using cl close_transport_returned by blast
  ultimately show ?thesis by simp
qed

theorem read_transport_peer_closed_witness:
  "proc live_handler = Some the_proc
   \<and> read_transport eof_os 10 (Some 5) live_handler [] =
       (Raises TransportClosedError, closed_handler,
        [EvMonotonic 0, EvMonotonic 1, EvSelect [4] [] [4] (Some 4) (Done ([4], [], [])),
         EvRead 4 10 (Done []),
         EvGetpgid 7 (Done 7), EvTerminate 7 (Done ()), EvKill 7 (Done ()), EvWait 7 (Done ()),
         EvKillpg 7 (Done ())])
   \<and> proc closed_handler = None"
proof -
  let ?tr1 = "[EvMonotonic 0, EvMonotonic 1, EvSelect [4] [] [4] (Some 4) (Done ([4], [], []))]"
  have live: "proc live_handler = Some the_proc" by (simp add: live_handler_def)
  have dl: "deadline eof_os (Some 5) [] = (Some 5, [EvMonotonic 0])"
    by (simp add: deadline_def time_monotonic_def eof_os_def ready_os_def)
  have ready: "await_ready eof_os [stdout_fileno the_proc] [] None (Some 5) [EvMonotonic 0] =
      (Returns True, ?tr1)"
    by (simp add: await_ready_def time_monotonic_def select_select_def eof_os_def ready_os_def
          the_proc_def)
  have rd0: "os_read eof_os ?tr1 (stdout_fileno the_proc) 10 = Done []"
    by (simp add: eof_os_def ready_os_def)
  then have rd: "os_read eof_os ?tr1 (stdout_fileno the_proc) 10 = Done []
           \<or> os_read eof_os ?tr1 (stdout_fileno the_proc) 10 = Fails BrokenPipeError" ..
  have cl: "close_transport eof_os live_handler
               (?tr1 @ [EvRead (stdout_fileno the_proc) 10
                          (os_read eof_os ?tr1 (stdout_fileno the_proc) 10)]) =
             (Returns (), closed_handler,
              (?tr1 @ [EvRead (stdout_fileno the_proc) 10
                          (os_read eof_os ?tr1 (stdout_fileno the_proc) 10)]) @
               [EvGetpgid 7 (Done 7), EvTerminate 7 (Done ()), EvKill 7 (Done ()),
                EvWait 7 (Done ()), EvKillpg 7 (Done ())])"
    by (rule close_live_eof)
  show ?thesis
    using read_transport_peer_closed [OF live dl ready rd cl] live rd0
    by (simp add: the_proc_def)
qed





text \<open>
  C7, as stated: by the end of any \<open>close_transport\<close> call the process handle is
  \<open>None\<close>. The handle is cleared after \<open>os.getpgid\<close>; where that call fails, the handle
  is still set when \<open>close_transport\<close> ends.
\<close>

theorem close_transport_keeps_handle_counterexample:
  "close_transport proc_gone_os live_handler [] =
     (Raises (OSError ProcessLookupError), live_handler, [EvGetpgid 7 (Fails ProcessLookupError)])
   \<and> proc live_handler \<noteq> None"
  by (simp add: close_transport_def close_proc_def DBG_def sys_getpgid_def raised_def
        proc_gone_os_def eof_os_def ready_os_def live_handler_def the_proc_def)

text \<open>
  C7, amended. On a session already torn down \<open>close_transport\<close> returns at once, with
  no error, no call and the handler unchanged. A call on a live session in which
  \<open>os.getpgid\<close> succeeds leaves the process handle \<open>None\<close>, so the next
  \<open>close_transport\<close> makes no call at all; and whenever \<open>close_transport\<close> returns
  normally the process handle is \<open>None\<close>.
\<close>

theorem close_transport_idempotent:
  "(proc h = None \<longrightarrow> close_transport sys h tr = (Returns (), h, tr))
   \<and> (\<forall>p g. proc h = Some p \<and> os_getpgid sys tr (pid p) = Done g \<longrightarrow>
         proc (fst (snd (close_transport sys h tr))) = None
         \<and> close_transport sys (fst (snd (close_transport sys h tr)))
               (snd (snd (close_transport sys h tr))) =
             (Returns (), fst (snd (close_transport sys h tr)),
              snd (snd (close_transport sys h tr))))
   \<and> (fst (close_transport sys h tr) = Returns () \<longrightarrow>
         proc (fst (snd (close_transport sys h tr))) = None)"
proof (intro conjI allI impI)
  assume "proc h = None"
  then show "close_transport sys h tr = (Returns (), h, tr)" by (rule close_transport_closed)
next
  fix p g assume a: "proc h = Some p \<and> os_getpgid sys tr (pid p) = Done g"
  then show c: "proc (fst (snd (close_transport sys h tr))) = None"
    using close_transport_clears [of h p sys tr g] by simp
  show "close_transport sys (fst (snd (close_transport sys h tr)))
               (snd (snd (close_transport sys h tr))) =
             (Returns (), fst (snd (close_transport sys h tr)),
              snd (snd (close_transport sys h tr)))"
    using c by (rule close_transport_closed)
next
  assume r: "fst (close_transport sys h tr) = Returns ()"
  show "proc (fst (snd (close_transport sys h tr))) = None"
  proof (cases "proc h")
    case None
    then show ?thesis using close_transport_closed [of h sys tr] by simp
  next
    case (Some p)
    show ?thesis
    proof (cases "os_getpgid sys tr (pid p)")
      case (Done g)
      then show ?thesis using Some close_transport_clears [of h p sys tr g] by simp
    next
      case (Fails e)
      then show ?thesis using Some r
        by (simp add: close_transport_def close_proc_def DBG_def sys_getpgid_def raised_def)
    next
      case Blocks
      then show ?thesis using Some r
        by (simp add: close_transport_def close_proc_def DBG_def sys_getpgid_def raised_def)
    qed
  qed
qed

theorem close_transport_idempotent_witness:
  "proc closed_handler = None
   \<and> close_transport ready_os closed_handler [] = (Returns (), closed_handler, [])
   \<and> proc live_handler = Some the_proc \<and> os_getpgid ready_os [] (pid the_proc) = Done 7
   \<and> fst (close_transport ready_os live_handler []) = Returns ()
   \<and> proc (fst (snd (close_transport ready_os live_handler []))) = None
   \<and> close_transport ready_os (fst (snd (close_transport ready_os live_handler [])))
         (snd (snd (close_transport ready_os live_handler []))) =
        (Returns (), fst (snd (close_transport ready_os live_handler [])),
         snd (snd (close_transport ready_os live_handler [])))"
proof -
  have a: "proc closed_handler = None" by (simp add: closed_handler_def)
  have b: "proc live_handler = Some the_proc \<and> os_getpgid ready_os [] (pid the_proc) = Done 7"
    by (simp add: live_handler_def ready_os_def the_proc_def)
  have c: "fst (close_transport ready_os live_handler []) = Returns ()"
    by (simp add: close_live_ready)
  show ?thesis
    using a b c close_transport_idempotent [of closed_handler ready_os "[]"]
      close_transport_idempotent [of live_handler ready_os "[]"]
    by blast
qed

text \<open>
  C8. On a live session, for \<open>n > 0\<close>, once the wait has succeeded \<open>read_transport\<close>
  makes one \<open>os.read\<close> of up to \<open>n\<close> bytes; when that read yields at least one byte the
  call returns those bytes with the handler unchanged. The history of the call holds that one
  read and no other, and, \<open>os.read\<close> returning at most \<open>n\<close> bytes, the length of the
  result is between 1 and \<open>n\<close>.
\<close>

theorem read_transport_single_read:
  assumes live: "proc h = Some p"
    and n: "0 < n"
    and upto: "os_read_upto sys"
    and dl: "deadline sys timeout_sec tr = (end_time, tr0)"
    and ready: "await_ready sys [stdout_fileno p] [] None end_time tr0 = (Returns True, tr1)"
    and rd: "os_read sys tr1 (stdout_fileno p) n = Done bs"
    and some: "bs \<noteq> []"
  shows "read_transport sys n timeout_sec h tr =
           (Returns bs, h, tr1 @ [EvRead (stdout_fileno p) n (Done bs)])
       \<and> filter is_read (tr1 @ [EvRead (stdout_fileno p) n (Done bs)]) =
           filter is_read tr @ [EvRead (stdout_fileno p) n (Done bs)]
       \<and> 1 \<le> length bs \<and> length bs \<le> n"
proof -
  have "read_attempt sys (stdout_fileno p) n end_time tr0 =
          (Returns bs, tr1 @ [EvRead (stdout_fileno p) n (Done bs)])"
    using ready rd by (simp add: read_attempt_def sys_read_def)
  then have a: "read_transport sys n timeout_sec h tr =
           (Returns bs, h, tr1 @ [EvRead (stdout_fileno p) n (Done bs)])"
    using live dl some by (simp add: read_transport_def DBG_def)
  have "filter is_read tr0 = filter is_read tr"
    using deadline_no_read [of sys timeout_sec tr] dl by simp
  moreover have "filter is_read tr1 = filter is_read tr0"
    using await_ready_no_read [of sys "[stdout_fileno p]" "[]" None end_time tr0] ready by simp
  ultimately have b: "filter is_read (tr1 @ [EvRead (stdout_fileno p) n (Done bs)]) =
           filter is_read tr @ [EvRead (stdout_fileno p) n (Done bs)]"
    by simp
  have c: "length bs \<le> n"
    using upto rd unfolding os_read_upto_def by blast
  have d: "1 \<le> length bs"
    using some by (cases bs) simp_all
  show ?thesis using a b c d by simp
qed

theorem read_transport_single_read_witness:
  "proc live_handler = Some the_proc \<and> (0::nat) < 10 \<and> os_read_upto ready_os
   \<and> read_transport ready_os 10 (Some 5) live_handler [] =
        (Returns [1, 2, 3], live_handler,
         [EvMonotonic 0, EvMonotonic 1, EvSelect [4] [] [4] (Some 4) (Done ([4], [], [])),
          EvRead 4 10 (Done [1, 2, 3])])"
proof -
  have dl: "deadline ready_os (Some 5) [] = (Some 5, [EvMonotonic 0])"
    by (simp add: deadline_def time_monotonic_def ready_os_def)
  have ready: "await_ready ready_os [stdout_fileno the_proc] [] None (Some 5) [EvMonotonic 0] =
      (Returns True, [EvMonotonic 0, EvMonotonic 1, EvSelect [4] [] [4] (Some 4) (Done ([4], [], []))])"
    by (simp add: await_ready_def time_monotonic_def select_select_def ready_os_def the_proc_def)
  have rd: "os_read ready_os [EvMonotonic 0, EvMonotonic 1, EvSelect [4] [] [4] (Some 4) (Done ([4], [], []))]
               (stdout_fileno the_proc) 10 = Done [1, 2, 3]"
    by (simp add: ready_os_def)
  have live: "proc live_handler = Some the_proc" by (simp add: live_handler_def)
  show ?thesis
    using read_transport_single_read [OF live _ ready_os_read_upto dl ready rd, of ] live ready_os_read_upto
    by (simp add: the_proc_def)
qed

text \<open>
  C9. When \<open>_await_ready\<close> is entered with a deadline that is already over, the timeout
  \<open>max(0, end_time - time.monotonic())\<close> is zero: one \<open>select\<close> with timeout zero is
  made, the wait succeeds when that \<open>select\<close> reports a handle, and raises
  \<open>IoTimeoutError\<close> only when it reports none.
\<close>

theorem await_ready_expired_deadline:
  assumes "end_time < os_monotonic sys tr"
  shows "await_ready sys rlist wlist None (Some end_time) tr =
           (let tr0 = tr @ [EvMonotonic (os_monotonic sys tr)];
                res = os_select sys tr0 rlist wlist (rlist @ wlist) (Some 0)
            in ((case res of
                   Done (rl, wl, xl) \<Rightarrow>
                     if rl = [] \<and> wl = [] \<and> xl = [] then Raises IoTimeoutError else Returns True
                 | Fails e \<Rightarrow> Raises (OSError e)
                 | Blocks \<Rightarrow> Hangs),
                tr0 @ [EvSelect rlist wlist (rlist @ wlist) (Some 0) res]))"
  using assms
  by (simp add: await_ready_def time_monotonic_def select_select_def raised_def Let_def max_def
           split: sysres.splits prod.splits)

theorem await_ready_expired_deadline_witness:
  "(0::real) < os_monotonic ready_os [EvMonotonic 5]
   \<and> await_ready ready_os [4] [] None (Some 0) [EvMonotonic 5] =
        (Returns True, [EvMonotonic 5, EvMonotonic 1, EvSelect [4] [] [4] (Some 0) (Done ([4], [], []))])
   \<and> await_ready idle_os [4] [] None (Some 0) [EvMonotonic 5] =
        (Raises IoTimeoutError,
         [EvMonotonic 5, EvMonotonic 1, EvSelect [4] [] [4] (Some 0) (Done ([], [], []))])"
  using await_ready_expired_deadline [of 0 ready_os "[EvMonotonic 5]" "[4]" "[]"]
        await_ready_expired_deadline [of 0 idle_os "[EvMonotonic 5]" "[4]" "[]"]
  by (simp add: idle_os_def ready_os_def Let_def)

text \<open>
  C10. On a live session \<open>write_transport\<close> with empty data returns normally, whatever
  the timeout: the handler is unchanged, and the history gains no \<open>select\<close> and no
  \<open>os.write\<close>, only the reading of the clock for the deadline when a timeout is given.
\<close>

theorem write_empty_no_io:
  assumes "proc h = Some p"
  shows "write_transport sys base [] timeout_sec h tr =
           (Returns (), h,
            case timeout_sec of None \<Rightarrow> tr | Some t \<Rightarrow> tr @ [EvMonotonic (os_monotonic sys tr)])"
  using assms
  by (simp add: write_transport_def deadline_def time_monotonic_def write_loop.simps split: option.splits)

theorem write_empty_no_io_witness:
  "proc live_handler = Some the_proc
   \<and> write_transport idle_os None [] (Some 0) live_handler [] =
        (Returns (), live_handler, [EvMonotonic 0])
   \<and> write_transport idle_os None [] None live_handler [] = (Returns (), live_handler, [])"
  using write_empty_no_io [of live_handler the_proc idle_os None "Some 0" "[]"]
        write_empty_no_io [of live_handler the_proc idle_os None None "[]"]
  by (simp add: live_handler_def idle_os_def ready_os_def)

end
